theory Spec2Isabelle
  imports Complex_Main
begin

section \<open>Python string operations used by the script\<close>

text \<open>
  A Python \<open>str\<close> is a sequence of code points. Texts are modelled as \<open>string\<close>, one
  \<open>char\<close> per code point, which covers the code points U+0000 to U+00FF.

  \<^item> \<open>isspace\<close>: the characters that \<open>str.strip()\<close> removes (tab to carriage return,
    the four separators U+001C to U+001F, space, U+0085 and U+00A0);
  \<^item> \<open>lower\<close>: \<open>str.lower()\<close>, which on this range maps A-Z and the accented capitals
    U+00C0 to U+00DE (the multiplication sign U+00D7 apart) to the code point 32 above;
  \<^item> \<open>contains p s\<close>: Python's \<open>p in s\<close>;
  \<^item> \<open>split_str s sep\<close>: \<open>s.split(sep)\<close> for a non-empty separator, scanning from the left
    and skipping each separator found. The script calls it with the literals
    newline and \<open>answer:\<close> only (Python raises ValueError on an empty separator).
\<close>

definition isspace :: "char \<Rightarrow> bool" where
  "isspace c = (let n = (of_char c :: nat) in
     (9 \<le> n \<and> n \<le> 13) \<or> (28 \<le> n \<and> n \<le> 32) \<or> n = 133 \<or> n = 160)"

definition lower_char :: "char \<Rightarrow> char" where
  "lower_char c = (let n = (of_char c :: nat) in
     if (65 \<le> n \<and> n \<le> 90) \<or> (192 \<le> n \<and> n \<le> 222 \<and> n \<noteq> 215)
     then char_of (n + 32) else c)"

definition lower :: "string \<Rightarrow> string" where
  "lower s = map lower_char s"

definition strip :: "string \<Rightarrow> string" where
  "strip s = rev (dropWhile isspace (rev (dropWhile isspace s)))"

definition startswith :: "string \<Rightarrow> string \<Rightarrow> bool" where
  "startswith s p = (take (length p) s = p)"

definition endswith :: "string \<Rightarrow> string \<Rightarrow> bool" where
  "endswith s p = (length p \<le> length s \<and> drop (length s - length p) s = p)"

fun contains :: "string \<Rightarrow> string \<Rightarrow> bool" where
  "contains p [] = (p = [])"
| "contains p (c # cs) = (startswith (c # cs) p \<or> contains p cs)"

function split_acc :: "string \<Rightarrow> string \<Rightarrow> string \<Rightarrow> string list" where
  "split_acc sep acc [] = [rev acc]"
| "split_acc sep acc (c # cs) =
     (if sep \<noteq> [] \<and> startswith (c # cs) sep
      then rev acc # split_acc sep [] (drop (length sep) (c # cs))
      else split_acc sep (c # acc) cs)"
  by pat_completeness auto
termination
  by (relation "measure (\<lambda>(sep, acc, s). length s)") auto

definition split_str :: "string \<Rightarrow> string \<Rightarrow> string list" where
  "split_str s sep = split_acc sep [] s"

section \<open>The label parser\<close>

text \<open>
  \<open>parse_prompt_response(response_text, method)\<close>, lines 66 to 111. The parameter
  \<open>method\<close> and the copy \<open>original_text\<close> are never read. The two \<open>for\<close> loops over
  the pattern lists return at the first pattern found, so each is \<open>list_ex\<close>;
  \<open>scan_lines\<close> is the loop over \<open>reversed(lines)\<close>, and \<open>keyword_fallback\<close> is the
  last \<open>if\<close>/\<open>elif\<close> with the final \<open>return -1\<close>.
\<close>

definition patterns_1 :: "string list" where
  "patterns_1 =
    [''[1]'', ''label: 1'', ''classification: 1'', ''answer: 1'',
     ''1 (clickbait)'', ''1(clickbait)'', ''result: 1'',
     ''output: 1'', ''prediction: 1'', ''final: 1'']"

definition patterns_0 :: "string list" where
  "patterns_0 =
    [''[0]'', ''label: 0'', ''classification: 0'', ''answer: 0'',
     ''0 (no-clickbait)'', ''0(no-clickbait)'', ''result: 0'',
     ''output: 0'', ''prediction: 0'', ''final: 0'']"

definition line_is_1 :: "string \<Rightarrow> bool" where
  "line_is_1 line = (line = ''1'' \<or> endswith line '' 1'' \<or> startswith line ''1 '')"

definition line_is_0 :: "string \<Rightarrow> bool" where
  "line_is_0 line = (line = ''0'' \<or> endswith line '' 0'' \<or> startswith line ''0 '')"

fun scan_lines :: "string list \<Rightarrow> int option" where
  "scan_lines [] = None"
| "scan_lines (l # ls) =
     (let line = strip l in
      if line_is_1 line then Some 1
      else if line_is_0 line then Some 0
      else scan_lines ls)"

definition keyword_fallback :: "string \<Rightarrow> int" where
  "keyword_fallback response_text =
     (if contains ''clickbait'' response_text \<and> \<not> contains ''no-clickbait'' response_text
         \<and> \<not> contains ''not clickbait'' response_text then 1
      else if contains ''no-clickbait'' response_text \<or> contains ''not clickbait'' response_text
      then 0
      else - 1)"

definition parse_prompt_response :: "string \<Rightarrow> int" where
  "parse_prompt_response original_text =
     (let response_text = lower original_text in
      if list_ex (\<lambda>pattern. contains pattern response_text) patterns_1 then 1
      else if list_ex (\<lambda>pattern. contains pattern response_text) patterns_0 then 0
      else (case scan_lines (rev (split_str (strip response_text) ''\<newline>'')) of
              Some label \<Rightarrow> label
            | None \<Rightarrow> keyword_fallback response_text))"

section \<open>The single-item classifier\<close>

text \<open>
  Python exceptions. \<open>Exception msg\<close> stands for an instance of any subclass of
  \<open>Exception\<close> (a network error, a timeout, an IndexError or AttributeError on a malformed
  response), with \<open>msg\<close> its text; \<open>KeyboardInterrupt\<close> is the operator's interrupt, which
  derives from \<open>BaseException\<close> and is not caught by \<open>except Exception\<close>.
\<close>

datatype exn = Exception string | KeyboardInterrupt

text \<open>
  What lines 41 to 49 and the read of \<open>response.choices[0].message.content\<close> give:
  the reply text, or an exception raised on the way.
\<close>

datatype client_outcome = Returns string | Raises exn

text \<open>
  The metrics record returned by \<open>calculate_metrics\<close> (lines 207 to 218); the field
  \<open>method_key\<close> is its key \<open>'method'\<close>. Python floats are modelled as rationals.
\<close>

record summary =
  method_key :: string
  accuracy :: rat
  precision_macro :: rat
  recall_macro :: rat
  f1_macro :: rat
  precision_weighted :: rat
  recall_weighted :: rat
  f1_weighted :: rat
  valid_samples :: nat
  total_samples :: nat

text \<open>
  What the script prints, one constructor for each \<open>print\<close> or block of them, in the
  order of the source: the error notice of line 63; the notice of line 173; the results
  block of lines 192 to 205, which shows the metrics and the library's report; the banner
  of lines 225 to 227; the progress line 233 with the item's number, the number of items
  and the title cut to 60 characters; the label line 242; the parse error line 244; the
  banner of lines 252 and 253; the notices of lines 260, 263, 271, 273, 276 and 278.
\<close>

datatype event =
    Error_in_prompting string
  | No_valid_predictions string
  | Results_report summary string
  | Evaluating_banner
  | Progress nat nat string
  | Item_label int string
  | Item_parse_error
  | Evaluation_banner
  | Unable_to_load
  | Loaded nat
  | Completed_successfully
  | Failed_valid_metrics
  | Stopped_by_user
  | Error_in_evaluation string

text \<open>Line 55: \<open>response_text.lower().split("answer:")[-1]\<close>.\<close>

definition answer_part :: "string \<Rightarrow> string" where
  "answer_part response_text = last (split_str (lower response_text) ''answer:'')"

text \<open>
  \<open>few_shot_prompting(client, title)\<close>, lines 25 to 64. The prompt is a fixed template
  around \<open>title\<close> that only the external client reads, so the client is a function of the
  title. The result is what was printed and either the exception that leaves the function
  or the returned label.
\<close>

definition few_shot_prompting ::
  "(string \<Rightarrow> client_outcome) \<Rightarrow> string \<Rightarrow> event list \<times> (exn + int)" where
  "few_shot_prompting client title =
     (case client title of
        Raises (Exception e) \<Rightarrow> ([Error_in_prompting e], Inr (- 1))
      | Raises KeyboardInterrupt \<Rightarrow> ([], Inl KeyboardInterrupt)
      | Returns content \<Rightarrow>
          (let response_text = strip content in
           ([], Inr (if contains ''answer:'' (lower response_text)
                     then (let a = answer_part response_text in
                           if contains ''1'' (take 5 a) then 1
                           else if contains ''0'' (take 5 a) then 0
                           else parse_prompt_response response_text)
                     else parse_prompt_response response_text))))"

section \<open>The metrics aggregator\<close>

text \<open>
  The functions of the metrics library that the script calls, apart from
  \<open>accuracy_score\<close>: a parameter of the model. Their first two arguments are
  \<open>valid_true_labels\<close> and \<open>valid_predictions\<close>, in that order. The field
  \<open>classification_report\<close> is the text the library returns when it does return.
\<close>

datatype average = Macro | Weighted

record metrics_lib =
  precision_score :: "int list \<Rightarrow> int list \<Rightarrow> average \<Rightarrow> rat"
  recall_score :: "int list \<Rightarrow> int list \<Rightarrow> average \<Rightarrow> rat"
  f1_score :: "int list \<Rightarrow> int list \<Rightarrow> average \<Rightarrow> rat"
  classification_report :: "int list \<Rightarrow> int list \<Rightarrow> string"

text \<open>
  Modelled from the spec: \<open>accuracy_score\<close> belongs to the external metrics library, which
  is not part of the sources. The spec calls it the overall accuracy over the filtered pair:
  the fraction of positions at which the predicted label equals the true label.
\<close>

definition accuracy_score :: "int list \<Rightarrow> int list \<Rightarrow> rat" where
  "accuracy_score y_true y_pred =
     of_nat (length (filter (\<lambda>(t, p). t = p) (zip y_true y_pred))) / of_nat (length y_true)"

definition valid_indices :: "int list \<Rightarrow> nat list" where
  "valid_indices predictions = filter (\<lambda>i. predictions ! i \<noteq> - 1) [0..<length predictions]"

definition valid_predictions :: "int list \<Rightarrow> int list" where
  "valid_predictions predictions = map (\<lambda>i. predictions ! i) (valid_indices predictions)"

text \<open>\<open>true_labels[i]\<close> raises IndexError when \<open>true_labels\<close> is too short.\<close>

definition valid_true_labels :: "int list \<Rightarrow> int list \<Rightarrow> exn + int list" where
  "valid_true_labels predictions true_labels =
     (if list_all (\<lambda>i. i < length true_labels) (valid_indices predictions)
      then Inr (map (\<lambda>i. true_labels ! i) (valid_indices predictions))
      else Inl (Exception ''list index out of range''))"

text \<open>
  Line 190 calls the library's \<open>classification_report\<close> with two target names and no
  list of labels. The library takes the classes from the data (the distinct values of the
  two lists) and raises ValueError when their number is not the number of target names,
  here 2; \<open>report_classes\<close> is that number and \<open>report_error\<close> the library's message, with
  the number printed in decimal by \<open>str_nat\<close>.
\<close>

definition report_classes :: "int list \<Rightarrow> int list \<Rightarrow> nat" where
  "report_classes y_true y_pred = length (remdups (y_true @ y_pred))"

function str_nat :: "nat \<Rightarrow> string" where
  "str_nat n =
     (if n < 10 then [char_of (48 + n)]
      else str_nat (n div 10) @ [char_of (48 + n mod 10)])"
  by pat_completeness auto
termination
  by (relation "measure (\<lambda>n. n)") auto

definition report_error :: "nat \<Rightarrow> exn" where
  "report_error k = Exception (''Number of classes, '' @ str_nat k @
     '', does not match size of target_names, 2. Try specifying the labels parameter'')"

text \<open>
  \<open>calculate_metrics(predictions, true_labels, method_name)\<close>, lines 165 to 218. The
  exception of line 190 leaves the function before anything of the results block is
  printed.
\<close>

definition calculate_metrics ::
  "metrics_lib \<Rightarrow> int list \<Rightarrow> int list \<Rightarrow> string \<Rightarrow> event list \<times> (exn + summary option)" where
  "calculate_metrics lib predictions true_labels method_name =
     (case valid_true_labels predictions true_labels of
        Inl e \<Rightarrow> ([], Inl e)
      | Inr vt \<Rightarrow>
          (let vp = valid_predictions predictions in
           if length vp = 0 then ([No_valid_predictions method_name], Inr None)
           else
             (let s = \<lparr> method_key = method_name,
                        accuracy = accuracy_score vt vp,
                        precision_macro = precision_score lib vt vp Macro,
                        recall_macro = recall_score lib vt vp Macro,
                        f1_macro = f1_score lib vt vp Macro,
                        precision_weighted = precision_score lib vt vp Weighted,
                        recall_weighted = recall_score lib vt vp Weighted,
                        f1_weighted = f1_score lib vt vp Weighted,
                        valid_samples = length vp,
                        total_samples = length predictions \<rparr>
              in if report_classes vt vp \<noteq> 2
                 then ([], Inl (report_error (report_classes vt vp)))
                 else ([Results_report s (classification_report lib vt vp)],
                       Inr (Some s)))))"

section \<open>The evaluation loop and the run\<close>












section \<open>Facts about the string operations\<close>

lemma startswith_iff: "startswith s p \<longleftrightarrow> (\<exists>b. s = p @ b)"
  unfolding startswith_def
  by (metis append_eq_conv_conj append_take_drop_id)

text \<open>\<open>contains\<close> is the substring relation.\<close>

lemma contains_iff: "contains p s \<longleftrightarrow> (\<exists>a b. s = a @ p @ b)"
proof (induction s)
  case Nil
  then show ?case by auto
next
  case (Cons c cs)
  show ?case
  proof
    assume "contains p (c # cs)"
    then consider "startswith (c # cs) p" | "contains p cs" by auto
    then show "\<exists>a b. c # cs = a @ p @ b"
    proof cases
      case 1
      then obtain b where "c # cs = p @ b" by (auto simp: startswith_iff)
      then have "c # cs = [] @ p @ b" by simp
      then show ?thesis by blast
    next
      case 2
      with Cons obtain a b where "cs = a @ p @ b" by auto
      then have "c # cs = (c # a) @ p @ b" by simp
      then show ?thesis by blast
    qed
  next
    assume "\<exists>a b. c # cs = a @ p @ b"
    then obtain a b where ab: "c # cs = a @ p @ b" by auto
    show "contains p (c # cs)"
    proof (cases a)
      case Nil
      with ab have "startswith (c # cs) p" by (simp add: startswith_iff)
      then show ?thesis by simp
    next
      case (Cons x xs)
      with ab have "cs = xs @ p @ b" by simp
      with Cons.IH show ?thesis by auto
    qed
  qed
qed

lemma split_acc_nonempty: "split_acc sep acc s \<noteq> []"
  by (induction sep acc s rule: split_acc.induct) auto

section \<open>The label parser: its cascade\<close>

lemma scan_lines_None:
  "scan_lines ls = None \<longleftrightarrow> (\<forall>l \<in> set ls. \<not> line_is_1 (strip l) \<and> \<not> line_is_0 (strip l))"
  by (induction ls) (auto simp: Let_def)

lemma scan_lines_range: "scan_lines ls = Some r \<Longrightarrow> r = 0 \<or> r = 1"
  by (induction ls) (auto simp: Let_def split: if_splits)

text \<open>
  Claim C1, as the code has it. A text whose lower-casing contains \<open>label: 1\<close> is parsed
  to 1, whatever surrounds the marker. A text whose lower-casing contains \<open>label: 0\<close> is
  parsed to 0 when none of the positive markers occurs in it: the positive markers are
  scanned first.
\<close>

theorem parse_label_marker:
  "(contains ''label: 1'' (lower t) \<longrightarrow> parse_prompt_response t = 1) \<and>
   (contains ''label: 0'' (lower u) \<and> (\<forall>p \<in> set patterns_1. \<not> contains p (lower u))
      \<longrightarrow> parse_prompt_response u = 0)"
  by (simp add: parse_prompt_response_def patterns_1_def patterns_0_def)

theorem parse_label_marker_witness:
  "contains ''label: 1'' (lower ''The Label: 1 fits'')
   \<and> parse_prompt_response ''The Label: 1 fits'' = 1
   \<and> contains ''label: 0'' (lower ''Label: 0'')
   \<and> list_all (\<lambda>p. \<not> contains p (lower ''Label: 0'')) patterns_1
   \<and> parse_prompt_response ''Label: 0'' = 0"
proof -
  have h1: "contains ''label: 1'' (lower ''The Label: 1 fits'')" by code_simp
  have h2: "contains ''label: 0'' (lower ''Label: 0'')" by code_simp
  have h3: "list_all (\<lambda>p. \<not> contains p (lower ''Label: 0'')) patterns_1" by code_simp
  then have h3': "\<forall>p \<in> set patterns_1. \<not> contains p (lower ''Label: 0'')"
    by (simp add: list_all_iff)
  from parse_label_marker [of "''The Label: 1 fits''" "''Label: 0''"] h1 h2 h3 h3'
  show ?thesis by blast
qed

text \<open>
  Claim C1 as stated fails for \<open>label: 0\<close>: the text below contains \<open>label: 0\<close>, and it
  is parsed to 1, because it contains \<open>label: 1\<close> too.
\<close>

theorem parse_label_0_counterexample:
  "contains ''label: 0'' (lower ''label: 0 or label: 1'')
   \<and> parse_prompt_response ''label: 0 or label: 1'' = 1
   \<and> parse_prompt_response ''label: 0 or label: 1'' \<noteq> 0"
  by code_simp

text \<open>
  Claim C2. When a positive explicit marker and a negative explicit marker both occur in
  the lower-cased text, the result is 1: the positive scan comes first.
\<close>

theorem parse_positive_marker_first:
  "p \<in> set patterns_1 \<Longrightarrow> contains p (lower t) \<Longrightarrow>
   q \<in> set patterns_0 \<Longrightarrow> contains q (lower t) \<Longrightarrow>
   parse_prompt_response t = 1"
  by (auto simp add: parse_prompt_response_def list_ex_iff Let_def)

theorem parse_positive_marker_first_witness:
  "''answer: 1'' \<in> set patterns_1 \<and> contains ''answer: 1'' (lower ''Answer: 1 (Label: 0?)'')
   \<and> ''label: 0'' \<in> set patterns_0 \<and> contains ''label: 0'' (lower ''Answer: 1 (Label: 0?)'')
   \<and> parse_prompt_response ''Answer: 1 (Label: 0?)'' = 1"
proof -
  have h1: "''answer: 1'' \<in> set patterns_1" by (simp add: patterns_1_def)
  have h2: "contains ''answer: 1'' (lower ''Answer: 1 (Label: 0?)'')" by code_simp
  have h3: "''label: 0'' \<in> set patterns_0" by (simp add: patterns_0_def)
  have h4: "contains ''label: 0'' (lower ''Answer: 1 (Label: 0?)'')" by code_simp
  from parse_positive_marker_first [OF h1 h2 h3 h4] h1 h2 h3 h4
  show ?thesis by blast
qed

text \<open>
  Claim C3. A text with none of the explicit markers, with no line that the line-based
  fallback accepts, and with none of the three keywords is parsed to the sentinel -1.
  The lines are those the code scans: the lower-cased text, stripped and split at
  newlines, each line stripped.
\<close>

theorem parse_unknown:
  assumes "\<forall>p \<in> set patterns_1. \<not> contains p (lower t)"
    and "\<forall>p \<in> set patterns_0. \<not> contains p (lower t)"
    and "\<forall>l \<in> set (split_str (strip (lower t)) ''\<newline>'').
           \<not> line_is_1 (strip l) \<and> \<not> line_is_0 (strip l)"
    and "\<not> contains ''clickbait'' (lower t)"
    and "\<not> contains ''no-clickbait'' (lower t)"
    and "\<not> contains ''not clickbait'' (lower t)"
  shows "parse_prompt_response t = - 1"
proof -
  have "scan_lines (rev (split_str (strip (lower t)) ''\<newline>'')) = None"
    using assms(3) by (simp add: scan_lines_None)
  then show ?thesis
    using assms(1,2,4,5,6)
    by (simp add: parse_prompt_response_def list_ex_iff keyword_fallback_def)
qed

theorem parse_unknown_witness:
  "list_all (\<lambda>p. \<not> contains p (lower ''I think this could go either way'')) patterns_1
   \<and> list_all (\<lambda>p. \<not> contains p (lower ''I think this could go either way'')) patterns_0
   \<and> list_all (\<lambda>l. \<not> line_is_1 (strip l) \<and> \<not> line_is_0 (strip l))
         (split_str (strip (lower ''I think this could go either way'')) ''\<newline>'')
   \<and> \<not> contains ''clickbait'' (lower ''I think this could go either way'')
   \<and> \<not> contains ''no-clickbait'' (lower ''I think this could go either way'')
   \<and> \<not> contains ''not clickbait'' (lower ''I think this could go either way'')
   \<and> parse_prompt_response ''I think this could go either way'' = - 1"
proof -
  have h1: "list_all (\<lambda>p. \<not> contains p (lower ''I think this could go either way'')) patterns_1"
    by code_simp
  have h2: "list_all (\<lambda>p. \<not> contains p (lower ''I think this could go either way'')) patterns_0"
    by code_simp
  have h3: "list_all (\<lambda>l. \<not> line_is_1 (strip l) \<and> \<not> line_is_0 (strip l))
         (split_str (strip (lower ''I think this could go either way'')) ''\<newline>'')"
    by code_simp
  have h4: "\<not> contains ''clickbait'' (lower ''I think this could go either way'')"
    by code_simp
  have h5: "\<not> contains ''no-clickbait'' (lower ''I think this could go either way'')"
    by code_simp
  have h6: "\<not> contains ''not clickbait'' (lower ''I think this could go either way'')"
    by code_simp
  have "parse_prompt_response ''I think this could go either way'' = - 1"
    using h1 h2 h3 h4 h5 h6 by (intro parse_unknown) (simp_all add: list_all_iff)
  with h1 h2 h3 h4 h5 h6 show ?thesis by blast
qed

text \<open>
  Claim C9. In the line-based fallback the tests for label 1 come before the tests for
  label 0: a scanned line that passes both gives 1. Hence a text with no explicit marker
  whose last line (the first one scanned) passes a test for 1 and a test for 0 is parsed
  to 1.
\<close>

theorem parse_line_one_before_zero:
  "(line_is_1 (strip l) \<and> line_is_0 (strip l) \<longrightarrow> scan_lines (l # ls) = Some 1) \<and>
   ((\<forall>p \<in> set patterns_1. \<not> contains p (lower t)) \<and>
    (\<forall>p \<in> set patterns_0. \<not> contains p (lower t)) \<and>
    line_is_1 (strip (last (split_str (strip (lower t)) ''\<newline>''))) \<and>
    line_is_0 (strip (last (split_str (strip (lower t)) ''\<newline>'')))
    \<longrightarrow> parse_prompt_response t = 1)"
proof -
  obtain ys y where "split_str (strip (lower t)) ''\<newline>'' = ys @ [y]"
    using split_acc_nonempty [of "''\<newline>''" "[]" "strip (lower t)"]
    by (metis split_str_def rev_exhaust)
  then show ?thesis
    by (simp add: parse_prompt_response_def list_ex_iff Let_def)
qed

theorem parse_line_one_before_zero_witness:
  "line_is_1 (strip ''1 vs 0'') \<and> line_is_0 (strip ''1 vs 0'')
   \<and> scan_lines [''1 vs 0''] = Some 1
   \<and> list_all (\<lambda>p. \<not> contains p (lower ''1 vs 0'')) patterns_1
   \<and> list_all (\<lambda>p. \<not> contains p (lower ''1 vs 0'')) patterns_0
   \<and> line_is_1 (strip (last (split_str (strip (lower ''1 vs 0'')) ''\<newline>'')))
   \<and> line_is_0 (strip (last (split_str (strip (lower ''1 vs 0'')) ''\<newline>'')))
   \<and> parse_prompt_response ''1 vs 0'' = 1"
proof -
  have h1: "line_is_1 (strip ''1 vs 0'')" by code_simp
  have h2: "line_is_0 (strip ''1 vs 0'')" by code_simp
  have h3: "list_all (\<lambda>p. \<not> contains p (lower ''1 vs 0'')) patterns_1" by code_simp
  have h4: "list_all (\<lambda>p. \<not> contains p (lower ''1 vs 0'')) patterns_0" by code_simp
  have h5: "line_is_1 (strip (last (split_str (strip (lower ''1 vs 0'')) ''\<newline>'')))"
    by code_simp
  have h6: "line_is_0 (strip (last (split_str (strip (lower ''1 vs 0'')) ''\<newline>'')))"
    by code_simp
  from h3 have h3': "\<forall>p \<in> set patterns_1. \<not> contains p (lower ''1 vs 0'')"
    by (simp add: list_all_iff)
  from h4 have h4': "\<forall>p \<in> set patterns_0. \<not> contains p (lower ''1 vs 0'')"
    by (simp add: list_all_iff)
  from parse_line_one_before_zero [of "''1 vs 0''" "[]" "''1 vs 0''"]
    h1 h2 h3 h4 h3' h4' h5 h6
  show ?thesis by blast
qed

text \<open>
  Claim C10. A text whose lower-casing contains \<open>clickbait\<close> is never parsed to the
  sentinel -1: the result is 0 or 1.
\<close>

theorem parse_clickbait_never_unknown:
  "contains ''clickbait'' (lower t) \<Longrightarrow>
   parse_prompt_response t \<noteq> - 1 \<and> (parse_prompt_response t = 0 \<or> parse_prompt_response t = 1)"
  by (auto simp add: parse_prompt_response_def keyword_fallback_def Let_def
      dest: scan_lines_range split: option.splits)

theorem parse_clickbait_never_unknown_witness:
  "contains ''clickbait'' (lower ''Pure ClickBait, honestly.'')
   \<and> parse_prompt_response ''Pure ClickBait, honestly.'' \<noteq> - 1
   \<and> (parse_prompt_response ''Pure ClickBait, honestly.'' = 0
      \<or> parse_prompt_response ''Pure ClickBait, honestly.'' = 1)"
proof -
  have h: "contains ''clickbait'' (lower ''Pure ClickBait, honestly.'')" by code_simp
  from parse_clickbait_never_unknown [OF h] h show ?thesis by blast
qed

section \<open>The single-item classifier: fast path and failures\<close>

text \<open>
  The last piece of a split is what follows an occurrence of the separator with no
  occurrence after it; without any occurrence it is the whole text.
\<close>

lemma split_acc_last:
  assumes "sep \<noteq> []"
  shows "(contains sep s \<longrightarrow>
           (\<exists>pre. s = pre @ sep @ last (split_acc sep acc s))
           \<and> \<not> contains sep (last (split_acc sep acc s)))
       \<and> (\<not> contains sep s \<longrightarrow> last (split_acc sep acc s) = rev acc @ s)"
  using assms
proof (induction sep acc s rule: split_acc.induct)
  case (1 sep acc)
  then show ?case by simp
next
  case (2 sep acc c cs)
  show ?case
  proof (cases "startswith (c # cs) sep")
    case True
    then obtain rest where rest: "c # cs = sep @ rest" by (auto simp: startswith_iff)
    then have dr: "drop (length sep) (c # cs) = rest" by (metis append_eq_conv_conj)
    have l: "last (split_acc sep acc (c # cs)) = last (split_acc sep [] rest)"
      using True "2.prems" dr split_acc_nonempty by simp
    have c: "contains sep (c # cs)" using True by simp
    from "2.IH"(1) True "2.prems" dr
    have ih: "(contains sep rest \<longrightarrow>
           (\<exists>pre. rest = pre @ sep @ last (split_acc sep [] rest))
           \<and> \<not> contains sep (last (split_acc sep [] rest)))
       \<and> (\<not> contains sep rest \<longrightarrow> last (split_acc sep [] rest) = rev [] @ rest)"
      by simp
    show ?thesis
    proof (cases "contains sep rest")
      case True
      with ih obtain pre where "rest = pre @ sep @ last (split_acc sep [] rest)"
        and n: "\<not> contains sep (last (split_acc sep [] rest))" by blast
      then have "c # cs = (sep @ pre) @ sep @ last (split_acc sep [] rest)"
        using rest by simp
      with n l c show ?thesis by metis
    next
      case False
      with ih have e: "last (split_acc sep [] rest) = rest" by simp
      then have "c # cs = [] @ sep @ last (split_acc sep [] rest)" using rest by simp
      with False e l c show ?thesis by metis
    qed
  next
    case False
    then have l: "last (split_acc sep acc (c # cs)) = last (split_acc sep (c # acc) cs)"
      by simp
    have c: "contains sep (c # cs) = contains sep cs" using False by simp
    from "2.IH"(2) False "2.prems"
    have ih: "(contains sep cs \<longrightarrow>
           (\<exists>pre. cs = pre @ sep @ last (split_acc sep (c # acc) cs))
           \<and> \<not> contains sep (last (split_acc sep (c # acc) cs)))
       \<and> (\<not> contains sep cs \<longrightarrow> last (split_acc sep (c # acc) cs) = rev (c # acc) @ cs)"
      by simp
    show ?thesis
    proof (cases "contains sep cs")
      case True
      with ih obtain pre where "cs = pre @ sep @ last (split_acc sep (c # acc) cs)"
        and n: "\<not> contains sep (last (split_acc sep (c # acc) cs))" by blast
      then have "c # cs = (c # pre) @ sep @ last (split_acc sep (c # acc) cs)" by simp
      with n l c True show ?thesis by metis
    next
      case False
      with ih l c show ?thesis by simp
    qed
  qed
qed

text \<open>
  No occurrence of \<open>answer:\<close> can start inside an occurrence of it, so an occurrence with
  none in what follows is the last one.
\<close>

lemma answer_no_later:
  "\<not> contains ''answer:'' a \<Longrightarrow> \<not> contains ''answer:'' (''nswer:'' @ a)"
  by (simp add: startswith_def)

lemma answer_part_last:
  assumes "contains ''answer:'' (lower rt)"
  shows "\<exists>pre. lower rt = pre @ ''answer:'' @ answer_part rt
            \<and> \<not> contains ''answer:'' (''nswer:'' @ answer_part rt)"
proof -
  have ne: "''answer:'' \<noteq> []" by simp
  from split_acc_last [OF ne, of "lower rt" "[]"] assms
  have "(\<exists>pre. lower rt = pre @ ''answer:'' @ answer_part rt)"
    and "\<not> contains ''answer:'' (answer_part rt)"
    by (simp_all add: answer_part_def split_str_def)
  then show ?thesis using answer_no_later by blast
qed

text \<open>
  Claim C4, as the code has it. Let the client return \<open>content\<close>, and let the response
  text (the stripped content) contain \<open>answer:\<close> after lower-casing. Then
  \<open>answer_part\<close> is the substring
  after the last occurrence of \<open>answer:\<close> (the lower-cased text is some prefix, the marker
  and \<open>answer_part\<close>, and no occurrence of the marker starts after that one), and the call
  returns 1 when \<open>1\<close> is among its first five characters, otherwise 0 when \<open>0\<close> is, and
  otherwise what the full parser returns on the response text. In particular the reply
  \<open>Answer: 0\<close> gives the prediction 0.
\<close>

theorem few_shot_prompting_fast_path:
  assumes "client title = Returns content"
  shows "(contains ''answer:'' (lower (strip content)) \<longrightarrow>
           (\<exists>pre. lower (strip content) = pre @ ''answer:'' @ answer_part (strip content)
              \<and> \<not> contains ''answer:'' (''nswer:'' @ answer_part (strip content)))
           \<and> few_shot_prompting client title =
               ([], Inr (if contains ''1'' (take 5 (answer_part (strip content))) then 1
                         else if contains ''0'' (take 5 (answer_part (strip content))) then 0
                         else parse_prompt_response (strip content))))
       \<and> (content = ''Answer: 0'' \<longrightarrow> few_shot_prompting client title = ([], Inr 0))"
proof -
  have "few_shot_prompting client title = ([], Inr 0)" if "content = ''Answer: 0''"
  proof -
    have "few_shot_prompting (\<lambda>t. Returns ''Answer: 0'') title = ([], Inr 0)"
      unfolding few_shot_prompting_def by code_simp
    with assms that show ?thesis by (simp add: few_shot_prompting_def)
  qed
  moreover have "few_shot_prompting client title =
               ([], Inr (if contains ''1'' (take 5 (answer_part (strip content))) then 1
                         else if contains ''0'' (take 5 (answer_part (strip content))) then 0
                         else parse_prompt_response (strip content)))"
    if "contains ''answer:'' (lower (strip content))"
    using assms that by (simp add: few_shot_prompting_def Let_def)
  ultimately show ?thesis using answer_part_last by blast
qed

theorem few_shot_prompting_fast_path_witness:
  "contains ''answer:'' (lower (strip ''Answer: 0''))
   \<and> answer_part (strip ''Answer: 0'') = '' 0''
   \<and> \<not> contains ''1'' (take 5 (answer_part (strip ''Answer: 0'')))
   \<and> contains ''0'' (take 5 (answer_part (strip ''Answer: 0'')))
   \<and> few_shot_prompting (\<lambda>t. Returns ''Answer: 0'')
        ''Federal Reserve raises interest rates by 0.5%'' = ([], Inr 0)"
proof -
  have h1: "contains ''answer:'' (lower (strip ''Answer: 0''))" by code_simp
  have h2: "answer_part (strip ''Answer: 0'') = '' 0''" by code_simp
  have h3: "\<not> contains ''1'' (take 5 (answer_part (strip ''Answer: 0'')))" by code_simp
  have h4: "contains ''0'' (take 5 (answer_part (strip ''Answer: 0'')))" by code_simp
  from few_shot_prompting_fast_path
    [of "\<lambda>t. Returns ''Answer: 0''" "''Federal Reserve raises interest rates by 0.5%''"
        "''Answer: 0''"] h1
  have "few_shot_prompting (\<lambda>t. Returns ''Answer: 0'')
          ''Federal Reserve raises interest rates by 0.5%'' =
        ([], Inr (if contains ''1'' (take 5 (answer_part (strip ''Answer: 0''))) then 1
                  else if contains ''0'' (take 5 (answer_part (strip ''Answer: 0''))) then 0
                  else parse_prompt_response (strip ''Answer: 0'')))"
    by blast
  with h3 h4 have "few_shot_prompting (\<lambda>t. Returns ''Answer: 0'')
          ''Federal Reserve raises interest rates by 0.5%'' = ([], Inr 0)"
    by simp
  with h1 h2 h3 h4 show ?thesis by blast
qed

text \<open>
  Claim C4 as stated fails for \<open>0\<close>: in the reply below \<open>0\<close> is among the first five
  characters after \<open>answer:\<close>, and the call returns 1, because \<open>1\<close> is among them too and
  is tested first.
\<close>

theorem few_shot_prompting_zero_counterexample:
  "contains ''answer:'' (lower (strip ''Answer: 0 1''))
   \<and> answer_part (strip ''Answer: 0 1'') = '' 0 1''
   \<and> contains ''0'' (take 5 (answer_part (strip ''Answer: 0 1'')))
   \<and> few_shot_prompting (\<lambda>t. Returns ''Answer: 0 1'') ''Rates rise by 0.5%'' = ([], Inr 1)
   \<and> few_shot_prompting (\<lambda>t. Returns ''Answer: 0 1'') ''Rates rise by 0.5%'' \<noteq> ([], Inr 0)"
  by code_simp

text \<open>
  Claim C7. When the client raises an exception of class \<open>Exception\<close> (a network error,
  a malformed response, a timeout or any other), the classifier does not raise: it prints
  the message and returns the sentinel -1.
\<close>

theorem few_shot_prompting_client_failure:
  "client title = Raises (Exception msg) \<Longrightarrow>
   few_shot_prompting client title = ([Error_in_prompting msg], Inr (- 1))"
  by (simp add: few_shot_prompting_def)

theorem few_shot_prompting_client_failure_witness:
  "few_shot_prompting (\<lambda>t. Raises (Exception ''Connection timed out'')) ''Rates rise by 0.5%''
     = ([Error_in_prompting ''Connection timed out''], Inr (- 1))"
  using few_shot_prompting_client_failure
    [of "\<lambda>t. Raises (Exception ''Connection timed out'')" "''Rates rise by 0.5%''"
        "''Connection timed out''"]
  by simp

section \<open>The metrics aggregator: filtering\<close>

lemma valid_indices_all_unknown:
  assumes "\<forall>p \<in> set predictions. p = - 1"
  shows "valid_indices predictions = []"
  using assms by (auto simp: valid_indices_def filter_empty_conv)

text \<open>
  Claim C5. On the predictions 1, 0, 1, -1, 0 and the true labels 1, 0, 0, 1, 0 the
  aggregator keeps the predictions 1, 0, 1, 0 and the true labels 1, 0, 0, 0, the
  accuracy of that pair is 3/4, and the returned record has this accuracy, 4 valid
  samples and 5 samples in total; its other metrics are the library's on the same pair.
\<close>

theorem calculate_metrics_example:
  "valid_predictions [1, 0, 1, - 1, 0] = [1, 0, 1, 0]
   \<and> valid_true_labels [1, 0, 1, - 1, 0] [1, 0, 0, 1, 0] = Inr [1, 0, 0, 0]
   \<and> accuracy_score [1, 0, 0, 0] [1, 0, 1, 0] = 3 / 4
   \<and> (let s = \<lparr> method_key = method_name,
             accuracy = 3 / 4,
             precision_macro = precision_score lib [1, 0, 0, 0] [1, 0, 1, 0] Macro,
             recall_macro = recall_score lib [1, 0, 0, 0] [1, 0, 1, 0] Macro,
             f1_macro = f1_score lib [1, 0, 0, 0] [1, 0, 1, 0] Macro,
             precision_weighted = precision_score lib [1, 0, 0, 0] [1, 0, 1, 0] Weighted,
             recall_weighted = recall_score lib [1, 0, 0, 0] [1, 0, 1, 0] Weighted,
             f1_weighted = f1_score lib [1, 0, 0, 0] [1, 0, 1, 0] Weighted,
             valid_samples = 4,
             total_samples = 5 \<rparr>
       in calculate_metrics lib [1, 0, 1, - 1, 0] [1, 0, 0, 1, 0] method_name =
           ([Results_report s (classification_report lib [1, 0, 0, 0] [1, 0, 1, 0])],
            Inr (Some s)))"
proof -
  have vi: "valid_indices [1, 0, 1, - 1, 0] = [0, 1, 2, 4]"
    by (simp add: valid_indices_def upt_rec)
  have vp: "valid_predictions [1, 0, 1, - 1, 0] = [1, 0, 1, 0]"
    by (simp add: valid_predictions_def vi)
  have vt: "valid_true_labels [1, 0, 1, - 1, 0] [1, 0, 0, 1, 0] = Inr [1, 0, 0, 0]"
    by (simp add: valid_true_labels_def vi)
  have ac: "accuracy_score [1, 0, 0, 0] [1, 0, 1, 0] = 3 / 4"
    by (simp add: accuracy_score_def)
  have rc: "report_classes [1, 0, 0, 0] [1, 0, 1, 0] = 2"
    by (simp add: report_classes_def)
  show ?thesis
    by (simp add: calculate_metrics_def vp vt ac rc Let_def)
qed

text \<open>
  Claim C6. When every prediction is the sentinel -1, the aggregator prints that there
  is no valid prediction and returns None, whatever the true labels and the metrics
  library are: no metric is computed and no record is built.
\<close>

theorem calculate_metrics_all_unknown:
  assumes "\<forall>p \<in> set predictions. p = - 1"
  shows "calculate_metrics lib predictions true_labels method_name =
           ([No_valid_predictions method_name], Inr None)"
  using valid_indices_all_unknown [OF assms]
  by (simp add: calculate_metrics_def valid_true_labels_def valid_predictions_def)

theorem calculate_metrics_all_unknown_witness:
  "list_all (\<lambda>p. p = - 1) [- 1, - 1, - 1 :: int]
   \<and> calculate_metrics
       \<lparr> precision_score = \<lambda>t p a. 0, recall_score = \<lambda>t p a. 0, f1_score = \<lambda>t p a. 0,
         classification_report = \<lambda>t p. [] \<rparr> [- 1, - 1, - 1] [1, 0, 1] ''few_shot''
      = ([No_valid_predictions ''few_shot''], Inr None)"
proof -
  have h: "list_all (\<lambda>p. p = - 1) [- 1, - 1, - 1 :: int]" by simp
  then have h': "\<forall>p \<in> set [- 1, - 1, - 1 :: int]. p = - 1" by simp
  from calculate_metrics_all_unknown [OF h'] h show ?thesis by blast
qed

section \<open>The evaluation loop under an operator interrupt\<close>

text \<open>The classifier lets nothing but the operator's interrupt through, and prints no metrics.\<close>

lemma few_shot_prompting_exn:
  "few_shot_prompting c t = (out, Inl e) \<Longrightarrow> e = KeyboardInterrupt \<and> out = []"
  by (auto simp: few_shot_prompting_def Let_def split: client_outcome.splits exn.splits)








end
